theory Spec2Isabelle
  imports Complex_Main
begin

section \<open>The grid search of the notebook (src/dl.ipynb, trainModels)\<close>

text \<open>
  The notebook's only algorithm is \<^verbatim>\<open>trainModels\<close> (lines 280-314 of src/dl.ipynb): a
  linear scan over a hyper-parameter grid that keeps the model with the best validation
  accuracy. Everything else is a call into a library (pandas/modin frames, scikit-learn's
  \<^verbatim>\<open>SVC\<close>, \<^verbatim>\<open>accuracy_score\<close>). The library is not code of the repository, so it
  is a parameter of the model: a record of the four operations the loop calls, each of
  which may raise.
\<close>

subsection \<open>Data\<close>

text \<open>A Python exception, as a value. \<^verbatim>\<open>IndexError\<close> is what indexing the grid out
  of range raises; every other exception comes out of a library call and carries the
  name of its class.\<close>

datatype exn = IndexError | LibraryError string

text \<open>A data frame of the notebook: one row per wine, its feature vector and its
  \<^verbatim>\<open>class\<close> column (both frames are built with the same column list, which
  contains \<^verbatim>\<open>class\<close>).\<close>

type_synonym dataframe = "(real list \<times> real) list"

text \<open>\<^verbatim>\<open>df.drop(labels="class", axis=1, inplace=False).to_numpy()\<close>: a new array
  with the feature columns; the frame itself is left as it is.\<close>

definition drop_class :: "dataframe \<Rightarrow> real list list" where
  "drop_class df = map fst df"

text \<open>\<^verbatim>\<open>df["class"].to_numpy()\<close>\<close>

definition class_column :: "dataframe \<Rightarrow> real list" where
  "class_column df = map snd df"

text \<open>A library call made for the configuration of the given index.\<close>

datatype call = Call_SVC nat | Call_fit nat | Call_predict nat | Call_accuracy_score nat

text \<open>The line
  \<^verbatim>\<open>print(f"Best model is config {idx} w/ {accuracy} accuracy on validation data")\<close>.\<close>

datatype line = Best_model_line nat real

text \<open>What \<^verbatim>\<open>trainModels\<close> can read or change outside its own locals: the two global
  frames, the standard output, and the sequence of library calls made so far.\<close>

record world =
  trainingDF :: dataframe
  validationDF :: dataframe
  stdout :: "line list"
  calls :: "call list"

text \<open>The library operations of the loop body. \<^verbatim>\<open>fit\<close> updates the estimator in
  place in Python; here it returns the fitted estimator. Accuracies are real numbers:
  \<^verbatim>\<open>accuracy_score\<close> returns the fraction of correct predictions, never a
  NaN, and two such floats compare as the fractions do. The calls are functions of their
  arguments: they read no global and change neither the frames nor the arrays passed.\<close>

record ('cfg, 'svm) sklearn =
  SVC :: "'cfg \<Rightarrow> exn + 'svm"
  fit :: "'svm \<Rightarrow> real list list \<Rightarrow> real list \<Rightarrow> exn + 'svm"
  predict :: "'svm \<Rightarrow> real list list \<Rightarrow> exn + real list"
  accuracy_score :: "real list \<Rightarrow> real list \<Rightarrow> exn + real"

text \<open>\<^verbatim>\<open>Tuple[int, float, SVC]\<close>: configuration index, accuracy, fitted model.\<close>

type_synonym 'svm candidate = "nat \<times> real \<times> 'svm"

subsection \<open>Operations\<close>

definition log_call :: "call \<Rightarrow> world \<Rightarrow> world" where
  "log_call c w = w\<lparr>calls := calls w @ [c]\<rparr>"

definition print_line :: "line \<Rightarrow> world \<Rightarrow> world" where
  "print_line l w = w\<lparr>stdout := stdout w @ [l]\<rparr>"

text \<open>\<^verbatim>\<open>hyper[idx]\<close>: the grid is the ordered sequence of its configurations.\<close>

definition getitem :: "'cfg list \<Rightarrow> nat \<Rightarrow> exn + 'cfg" where
  "getitem hyper idx = (if idx < length hyper then Inr (hyper ! idx) else Inl IndexError)"

text \<open>Lines 293-303, the first half of the loop body: construct, fit, predict, score.
  An exception of any of the four calls leaves the function at once; there is no
  \<^verbatim>\<open>try\<close> in the source.\<close>

definition fit_and_score ::
  "('cfg, 'svm) sklearn \<Rightarrow> real list list \<Rightarrow> real list \<Rightarrow> real list list \<Rightarrow> real list \<Rightarrow>
   'cfg list \<Rightarrow> nat \<Rightarrow> world \<Rightarrow> (exn + real \<times> 'svm) \<times> world" where
  "fit_and_score L features classes validationFeatures validationClasses hyper idx w =
    (case getitem hyper idx of
      Inl e \<Rightarrow> (Inl e, w)
    | Inr params \<Rightarrow>
       (let w1 = log_call (Call_SVC idx) w in
        case SVC L params of
          Inl e \<Rightarrow> (Inl e, w1)
        | Inr svm0 \<Rightarrow>
           (let w2 = log_call (Call_fit idx) w1 in
            case fit L svm0 features classes of
              Inl e \<Rightarrow> (Inl e, w2)
            | Inr svm \<Rightarrow>
               (let w3 = log_call (Call_predict idx) w2 in
                case predict L svm validationFeatures of
                  Inl e \<Rightarrow> (Inl e, w3)
                | Inr pred \<Rightarrow>
                   (let w4 = log_call (Call_accuracy_score idx) w3 in
                    case accuracy_score L validationClasses pred of
                      Inl e \<Rightarrow> (Inl e, w4)
                    | Inr accuracy \<Rightarrow> (Inr (accuracy, svm), w4))))))"

text \<open>Lines 305-312, the second half of the loop body: the Best-So-Far slot.\<close>

definition update_best ::
  "nat \<Rightarrow> real \<Rightarrow> 'svm \<Rightarrow> 'svm candidate option \<Rightarrow> world \<Rightarrow> 'svm candidate option \<times> world" where
  "update_best idx accuracy svm bestModel w =
    (case bestModel of
      None \<Rightarrow> (Some (idx, accuracy, svm), print_line (Best_model_line idx accuracy) w)
    | Some b \<Rightarrow>
        if fst (snd b) < accuracy
        then (Some (idx, accuracy, svm), print_line (Best_model_line idx accuracy) w)
        else (bestModel, w))"

text \<open>\<^verbatim>\<open>for idx in range(hyper.__len__()): ...\<close>, over the indices still to visit.\<close>

fun for_loop ::
  "('cfg, 'svm) sklearn \<Rightarrow> real list list \<Rightarrow> real list \<Rightarrow> real list list \<Rightarrow> real list \<Rightarrow>
   'cfg list \<Rightarrow> nat list \<Rightarrow> 'svm candidate option \<Rightarrow> world \<Rightarrow>
   (exn + 'svm candidate option) \<times> world" where
  "for_loop L features classes validationFeatures validationClasses hyper [] bestModel w =
     (Inr bestModel, w)"
| "for_loop L features classes validationFeatures validationClasses hyper (idx # rest) bestModel w =
     (case fit_and_score L features classes validationFeatures validationClasses hyper idx w of
        (Inl e, w') \<Rightarrow> (Inl e, w')
      | (Inr (accuracy, svm), w') \<Rightarrow>
          (case update_best idx accuracy svm bestModel w' of
             (bestModel', w'') \<Rightarrow>
               for_loop L features classes validationFeatures validationClasses hyper rest
                 bestModel' w''))"

text \<open>\<^verbatim>\<open>def trainModels(hyper)\<close>, lines 280-314. The result is \<open>Inl\<close> of the
  exception that left the function, or \<open>Inr\<close> of the returned \<^verbatim>\<open>bestModel\<close>
  (\<open>None\<close> is Python's \<^verbatim>\<open>None\<close>).\<close>

definition trainModels ::
  "('cfg, 'svm) sklearn \<Rightarrow> 'cfg list \<Rightarrow> world \<Rightarrow> (exn + 'svm candidate option) \<times> world" where
  "trainModels L hyper w =
    (let bestModel = None;
         features = drop_class (trainingDF w);
         classes = class_column (trainingDF w);
         validationFeatures = drop_class (validationDF w);
         validationClasses = class_column (validationDF w)
     in for_loop L features classes validationFeatures validationClasses hyper
          [0..<length hyper] bestModel w)"

text \<open>The outcome of evaluating the configuration of index \<open>idx\<close> on its own, on the
  data of \<open>w\<close>: its validation accuracy and fitted model, or the exception raised.\<close>

definition evaluated ::
  "('cfg, 'svm) sklearn \<Rightarrow> world \<Rightarrow> 'cfg list \<Rightarrow> nat \<Rightarrow> exn + real \<times> 'svm" where
  "evaluated L w hyper idx =
     fst (fit_and_score L (drop_class (trainingDF w)) (class_column (trainingDF w))
            (drop_class (validationDF w)) (class_column (validationDF w)) hyper idx w)"

text \<open>The four library calls of one configuration, in the order the body makes them.\<close>

definition calls_of :: "nat \<Rightarrow> call list" where
  "calls_of idx = [Call_SVC idx, Call_fit idx, Call_predict idx, Call_accuracy_score idx]"

text \<open>The Best-So-Far slot after the first \<open>k\<close> iterations of the loop of
  \<^verbatim>\<open>trainModels\<close>, or the exception that ended the loop before.\<close>

definition slot_after ::
  "('cfg, 'svm) sklearn \<Rightarrow> world \<Rightarrow> 'cfg list \<Rightarrow> nat \<Rightarrow> exn + 'svm candidate option" where
  "slot_after L w hyper k =
     fst (for_loop L (drop_class (trainingDF w)) (class_column (trainingDF w))
            (drop_class (validationDF w)) (class_column (validationDF w)) hyper [0..<k] None w)"

subsection \<open>Test doubles of the library\<close>

text \<open>A stand-in for scikit-learn in concrete runs: \<open>table\<close> gives, for each
  configuration, the validation accuracy its model reaches or the exception its fit
  raises. The estimator is the configuration itself; \<open>predict\<close> hands the accuracy on
  as a one-element prediction and \<open>accuracy_score\<close> reads it back.\<close>

definition table_lib :: "('cfg \<Rightarrow> exn + real) \<Rightarrow> ('cfg, 'cfg) sklearn" where
  "table_lib table =
     \<lparr> SVC = (\<lambda>params. Inr params),
       fit = (\<lambda>svm X y. case table svm of Inl e \<Rightarrow> Inl e | Inr a \<Rightarrow> Inr svm),
       predict = (\<lambda>svm X. case table svm of Inl e \<Rightarrow> Inl e | Inr a \<Rightarrow> Inr [a]),
       accuracy_score = (\<lambda>y pred. case pred of [] \<Rightarrow> Inl (LibraryError ''ValueError'')
                                   | a # _ \<Rightarrow> Inr a) \<rparr>"

text \<open>A table for grids over the single hyper-parameter \<^verbatim>\<open>C\<close>: three
  configurations with known accuracies (two of them tied); every other configuration,
  such as a negative \<^verbatim>\<open>C\<close>, makes \<^verbatim>\<open>fit\<close> raise a
  \<^verbatim>\<open>ValueError\<close>.\<close>

definition demo_table :: "(string \<times> real) list \<Rightarrow> exn + real" where
  "demo_table params =
     (if params = [(''C'', 0.1)] then Inr 0.80
      else if params = [(''C'', 0.5)] then Inr 0.92
      else if params = [(''C'', 1.0)] then Inr 0.92
      else Inl (LibraryError ''ValueError''))"

text \<open>A second stand-in, which checks shapes the way scikit-learn does: \<open>fit\<close>
  wants as many labels as rows and records the number of features, \<open>predict\<close>
  rejects rows of another width, \<open>accuracy_score\<close> is the fraction of equal
  entries. Its model predicts class 1 for every row.\<close>

definition width_lib :: "('cfg, 'cfg \<times> nat) sklearn" where
  "width_lib =
     \<lparr> SVC = (\<lambda>params. Inr (params, 0)),
       fit = (\<lambda>svm X y. if length X \<noteq> length y then Inl (LibraryError ''ValueError'')
                         else Inr (fst svm, case X of [] \<Rightarrow> 0 | x # _ \<Rightarrow> length x)),
       predict = (\<lambda>svm Xv. if list_all (\<lambda>x. length x = snd svm) Xv then Inr (map (\<lambda>x. 1) Xv)
                            else Inl (LibraryError ''ValueError'')),
       accuracy_score = (\<lambda>y pred. if length y \<noteq> length pred \<or> y = []
                                   then Inl (LibraryError ''ValueError'')
                                   else Inr (real (length (filter (\<lambda>p. fst p = snd p) (zip y pred)))
                                             / real (length y))) \<rparr>"

text \<open>A world with two small frames of matching width and nothing printed yet.\<close>

definition world0 :: world where
  "world0 = \<lparr> trainingDF = [([0, 1], 1), ([1, 0], 2)], validationDF = [([1, 1], 2)],
              stdout = [], calls = [] \<rparr>"

text \<open>A world whose frames disagree: two training rows of two features, one validation
  row of three.\<close>

definition world_mismatched :: world where
  "world_mismatched = \<lparr> trainingDF = [([0, 1], 1), ([1, 0], 2)], validationDF = [([1, 1, 1], 2)],
              stdout = [], calls = [] \<rparr>"

text \<open>
  A world whose validation frame has two rows, of classes 1 and 2: a model that
  predicts class 1 for every row scores 1/2 on it.
\<close>

definition world1 :: world where
  "world1 = \<lparr> trainingDF = [([0, 1], 1), ([1, 0], 2)],
              validationDF = [([1, 1], 1), ([0, 0], 2)], stdout = [], calls = [] \<rparr>"

section \<open>Properties\<close>

subsection \<open>Evaluating concrete runs\<close>

text \<open>
  The defining equations that a run on concrete data unfolds.
\<close>

lemmas run_simps = trainModels_def fit_and_score_def getitem_def table_lib_def update_best_def
  world0_def log_call_def print_line_def drop_class_def class_column_def Let_def demo_table_def
  evaluated_def calls_of_def width_lib_def world_mismatched_def slot_after_def world1_def

subsection \<open>One configuration: construct, fit, predict, score\<close>

text \<open>
  The outcome of the four calls does not depend on the world they run in; the calls
  leave the frames and the output alone and extend the call sequence by a prefix of
  \<open>calls_of idx\<close>, the whole of it when all four succeed.
\<close>

lemma fas_fst_indep:
  "fst (fit_and_score L X y Xv yv hyper idx w) = fst (fit_and_score L X y Xv yv hyper idx w0)"
  by (simp add: fit_and_score_def Let_def split: sum.splits)

lemma fas_frame:
  "trainingDF (snd (fit_and_score L X y Xv yv hyper idx w)) = trainingDF w"
  "validationDF (snd (fit_and_score L X y Xv yv hyper idx w)) = validationDF w"
  "stdout (snd (fit_and_score L X y Xv yv hyper idx w)) = stdout w"
  by (simp_all add: fit_and_score_def Let_def log_call_def split: sum.splits)

lemma fas_calls_ok:
  "fit_and_score L X y Xv yv hyper idx w = (Inr r, w') \<Longrightarrow> w' = w\<lparr>calls := calls w @ calls_of idx\<rparr>"
  by (auto simp add: fit_and_score_def Let_def log_call_def calls_of_def split: sum.splits)

lemma fas_calls_err:
  assumes "fit_and_score L X y Xv yv hyper idx w = (Inl e, w')"
  shows "\<exists>n. w' = w\<lparr>calls := calls w @ take n (calls_of idx)\<rparr>"
proof -
  have t: "[] = take 0 (calls_of idx)" "[Call_SVC idx] = take 1 (calls_of idx)"
    "[Call_SVC idx, Call_fit idx] = take 2 (calls_of idx)"
    "[Call_SVC idx, Call_fit idx, Call_predict idx] = take 3 (calls_of idx)"
    "[Call_SVC idx, Call_fit idx, Call_predict idx, Call_accuracy_score idx] = take 4 (calls_of idx)"
    by (simp_all add: calls_of_def numeral_2_eq_2 numeral_3_eq_3)
  from assms have "w' = w\<lparr>calls := calls w @ []\<rparr>
     \<or> w' = w\<lparr>calls := calls w @ [Call_SVC idx]\<rparr>
     \<or> w' = w\<lparr>calls := calls w @ [Call_SVC idx, Call_fit idx]\<rparr>
     \<or> w' = w\<lparr>calls := calls w @ [Call_SVC idx, Call_fit idx, Call_predict idx]\<rparr>
     \<or> w' = w\<lparr>calls := calls w @ [Call_SVC idx, Call_fit idx, Call_predict idx, Call_accuracy_score idx]\<rparr>"
    by (auto simp add: fit_and_score_def Let_def log_call_def split: sum.splits)
  then show ?thesis
    using t by metis
qed

lemma E_evaluated:
  "fst (fit_and_score L (drop_class (trainingDF w)) (class_column (trainingDF w))
          (drop_class (validationDF w)) (class_column (validationDF w)) hyper j w')
   = evaluated L w hyper j"
  unfolding evaluated_def by (rule fas_fst_indep)

subsection \<open>The slot update\<close>

lemma upd_cases:
  "update_best k acc svm b w = (b', w') \<Longrightarrow>
     (b' = b \<and> w' = w \<and> (\<exists>i a m. b = Some (i, a, m) \<and> \<not> a < acc))
   \<or> (b' = Some (k, acc, svm) \<and> w' = print_line (Best_model_line k acc) w
        \<and> (b = None \<or> (\<exists>i a m. b = Some (i, a, m) \<and> a < acc)))"
  by (auto simp: update_best_def split: option.splits if_splits)

lemma upd_calls:
  "calls (snd (update_best k acc svm b w)) = calls w"
  by (simp add: update_best_def print_line_def split: option.splits)

subsection \<open>The loop\<close>

text \<open>
  The loop over a concatenation of index lists runs the first list, and, unless an
  exception left it, the second from the slot and world the first one reached.
\<close>

lemma for_loop_append:
  "for_loop L X y Xv yv hyper (xs @ ys) best w =
     (case for_loop L X y Xv yv hyper xs best w of
        (Inl e, w') \<Rightarrow> (Inl e, w')
      | (Inr b, w') \<Rightarrow> for_loop L X y Xv yv hyper ys b w')"
  by (induction xs arbitrary: best w) (auto split: prod.splits sum.splits)

lemma for_loop_frame:
  assumes "for_loop L X y Xv yv hyper idxs best w = (res, w')"
  shows "trainingDF w' = trainingDF w \<and> validationDF w' = validationDF w"
  using assms
proof (induction idxs arbitrary: best w)
  case Nil
  then show ?case by simp
next
  case (Cons idx rest)
  obtain o1 w1 where f: "fit_and_score L X y Xv yv hyper idx w = (o1, w1)"
    by (cases "fit_and_score L X y Xv yv hyper idx w")
  have w1: "trainingDF w1 = trainingDF w \<and> validationDF w1 = validationDF w"
    using fas_frame(1,2)[of L X y Xv yv hyper idx w] f by simp
  show ?case
  proof (cases o1)
    case (Inl e)
    with Cons.prems f w1 show ?thesis by simp
  next
    case (Inr p)
    obtain accuracy svm where p: "p = (accuracy, svm)" by (cases p)
    obtain b2 w2 where u: "update_best idx accuracy svm best w1 = (b2, w2)"
      by (cases "update_best idx accuracy svm best w1")
    have w2: "trainingDF w2 = trainingDF w1 \<and> validationDF w2 = validationDF w1"
      using u by (auto simp: update_best_def print_line_def split: option.splits if_splits)
    from Cons.prems f Inr p u have "for_loop L X y Xv yv hyper rest b2 w2 = (res, w')"
      by simp
    from Cons.IH[OF this] w1 w2 show ?thesis by simp
  qed
qed

lemma for_loop_calls_ok:
  "for_loop L X y Xv yv hyper idxs best w = (Inr r, w') \<Longrightarrow>
     calls w' = calls w @ concat (map calls_of idxs)"
proof (induction idxs arbitrary: best w)
  case Nil
  then show ?case by simp
next
  case (Cons idx rest)
  obtain o1 w1 where f: "fit_and_score L X y Xv yv hyper idx w = (o1, w1)"
    by (cases "fit_and_score L X y Xv yv hyper idx w")
  from Cons.prems f obtain accuracy svm where o1: "o1 = Inr (accuracy, svm)"
    by (cases o1) auto
  have w1: "calls w1 = calls w @ calls_of idx"
    using fas_calls_ok[of L X y Xv yv hyper idx w "(accuracy, svm)" w1] f o1 by simp
  obtain b2 w2 where u: "update_best idx accuracy svm best w1 = (b2, w2)"
    by (cases "update_best idx accuracy svm best w1")
  have w2: "calls w2 = calls w1"
    using upd_calls[of idx accuracy svm best w1] u by simp
  from Cons.prems f o1 u have "for_loop L X y Xv yv hyper rest b2 w2 = (Inr r, w')"
    by simp
  from Cons.IH[OF this] w1 w2 show ?case by simp
qed

lemma for_loop_stdout:
  assumes E: "\<And>j w. fst (fit_and_score L X y Xv yv hyper j w) = E j"
  shows "for_loop L X y Xv yv hyper idxs best w = (res, w') \<Longrightarrow>
     \<exists>ls. stdout w' = stdout w @ ls \<and>
       (\<forall>l\<in>set ls. \<exists>i\<in>set idxs. \<exists>a m. l = Best_model_line i a \<and> E i = Inr (a, m))"
proof (induction idxs arbitrary: best w)
  case Nil
  then show ?case by simp
next
  case (Cons idx rest)
  obtain o1 w1 where f: "fit_and_score L X y Xv yv hyper idx w = (o1, w1)"
    by (cases "fit_and_score L X y Xv yv hyper idx w")
  have w1: "stdout w1 = stdout w"
    using fas_frame(3)[of L X y Xv yv hyper idx w] f by simp
  show ?case
  proof (cases o1)
    case (Inl e)
    with Cons.prems f w1 show ?thesis by simp
  next
    case (Inr p)
    obtain accuracy svm where p: "p = (accuracy, svm)" by (cases p)
    have Ei: "E idx = Inr (accuracy, svm)"
      using E[of idx w] f Inr p by simp
    obtain b2 w2 where u: "update_best idx accuracy svm best w1 = (b2, w2)"
      by (cases "update_best idx accuracy svm best w1")
    from upd_cases[OF u]
    have w2: "stdout w2 = stdout w1 \<or> stdout w2 = stdout w1 @ [Best_model_line idx accuracy]"
      by (auto simp: print_line_def)
    from Cons.prems f Inr p u have "for_loop L X y Xv yv hyper rest b2 w2 = (res, w')"
      by simp
    from Cons.IH[OF this] obtain ls where
      ls: "stdout w' = stdout w2 @ ls"
        "\<forall>l\<in>set ls. \<exists>i\<in>set rest. \<exists>a m. l = Best_model_line i a \<and> E i = Inr (a, m)"
      by blast
    from w2 show ?thesis
    proof
      assume "stdout w2 = stdout w1"
      with ls w1 show ?thesis by auto
    next
      assume "stdout w2 = stdout w1 @ [Best_model_line idx accuracy]"
      with ls(1) w1 have "stdout w' = stdout w @ (Best_model_line idx accuracy # ls)" by simp
      moreover have "\<forall>l\<in>set (Best_model_line idx accuracy # ls).
          \<exists>i\<in>set (idx # rest). \<exists>a m. l = Best_model_line i a \<and> E i = Inr (a, m)"
        using ls(2) Ei by auto
      ultimately show ?thesis by blast
    qed
  qed
qed

text \<open>
  The loop over \<open>[0..<Suc k]\<close> that returns has run \<open>[0..<k]\<close>, evaluated
  configuration \<open>k\<close> and updated the slot.
\<close>

lemma prefix_Suc_Inr:
  assumes "for_loop L X y Xv yv hyper [0..<Suc k] None w = (Inr r, w')"
  obtains b w1 accuracy svm where
    "for_loop L X y Xv yv hyper [0..<k] None w = (Inr b, w1)"
    "fit_and_score L X y Xv yv hyper k w1 = (Inr (accuracy, svm), w1\<lparr>calls := calls w1 @ calls_of k\<rparr>)"
    "update_best k accuracy svm b (w1\<lparr>calls := calls w1 @ calls_of k\<rparr>) = (r, w')"
proof -
  obtain o1 w1 where p: "for_loop L X y Xv yv hyper [0..<k] None w = (o1, w1)"
    by (cases "for_loop L X y Xv yv hyper [0..<k] None w")
  from assms p obtain b where b: "o1 = Inr b"
    by (cases o1) (auto simp: for_loop_append)
  obtain o2 w2 where f: "fit_and_score L X y Xv yv hyper k w1 = (o2, w2)"
    by (cases "fit_and_score L X y Xv yv hyper k w1")
  from assms p b f obtain accuracy svm where o2: "o2 = Inr (accuracy, svm)"
    by (cases o2) (auto simp: for_loop_append)
  have w2: "w2 = w1\<lparr>calls := calls w1 @ calls_of k\<rparr>"
    using fas_calls_ok f o2 by blast
  from assms p b f o2 have "update_best k accuracy svm b w2 = (r, w')"
    by (simp add: for_loop_append split: prod.splits)
  with p b f o2 w2 that show thesis by blast
qed

text \<open>
  The invariant of the scan: after \<open>k\<close> iterations the slot holds the first
  configuration of greatest accuracy among the first \<open>k\<close>.
\<close>

lemma prefix_value:
  assumes E: "\<And>j w. fst (fit_and_score L X y Xv yv hyper j w) = E j"
  shows "for_loop L X y Xv yv hyper [0..<k] None w = (Inr r, w') \<Longrightarrow>
     (k = 0 \<and> r = None) \<or>
     (\<exists>i a m. r = Some (i, a, m) \<and> i < k \<and> E i = Inr (a, m) \<and>
        (\<forall>j<k. \<exists>a' m'. E j = Inr (a', m') \<and> a' \<le> a \<and> (j < i \<longrightarrow> a' < a)))"
proof (induction k arbitrary: r w')
  case 0
  then show ?case by simp
next
  case (Suc k)
  from Suc.prems obtain b w1 accuracy svm where
    p: "for_loop L X y Xv yv hyper [0..<k] None w = (Inr b, w1)" and
    f: "fit_and_score L X y Xv yv hyper k w1 = (Inr (accuracy, svm), w1\<lparr>calls := calls w1 @ calls_of k\<rparr>)" and
    u: "update_best k accuracy svm b (w1\<lparr>calls := calls w1 @ calls_of k\<rparr>) = (r, w')"
    by (rule prefix_Suc_Inr)
  have Ek: "E k = Inr (accuracy, svm)"
    using E[of k w1] f by simp
  note ih = Suc.IH[OF p]
  from upd_cases[OF u] show ?case
  proof (elim disjE conjE exE)
    fix i a m
    assume r: "r = b" and b: "b = Some (i, a, m)" and na: "\<not> a < accuracy"
    from ih b have i: "i < k" "E i = Inr (a, m)"
      and all: "\<forall>j<k. \<exists>a' m'. E j = Inr (a', m') \<and> a' \<le> a \<and> (j < i \<longrightarrow> a' < a)"
      by auto
    have "\<forall>j<Suc k. \<exists>a' m'. E j = Inr (a', m') \<and> a' \<le> a \<and> (j < i \<longrightarrow> a' < a)"
    proof (intro allI impI)
      fix j assume "j < Suc k"
      then consider "j < k" | "j = k" by linarith
      then show "\<exists>a' m'. E j = Inr (a', m') \<and> a' \<le> a \<and> (j < i \<longrightarrow> a' < a)"
      proof cases
        case 1 with all show ?thesis by blast
      next
        case 2 with Ek na i show ?thesis by auto
      qed
    qed
    with r b i show ?thesis by auto
  next
    assume r: "r = Some (k, accuracy, svm)" and "b = None"
    with ih have k0: "k = 0" by auto
    with r Ek show ?thesis by auto
  next
    fix i a m
    assume r: "r = Some (k, accuracy, svm)" and b: "b = Some (i, a, m)" and lt: "a < accuracy"
    from ih b have all: "\<forall>j<k. \<exists>a' m'. E j = Inr (a', m') \<and> a' \<le> a"
      by auto
    have "\<forall>j<Suc k. \<exists>a' m'. E j = Inr (a', m') \<and> a' \<le> accuracy \<and> (j < k \<longrightarrow> a' < accuracy)"
    proof (intro allI impI)
      fix j assume "j < Suc k"
      then consider "j < k" | "j = k" by linarith
      then show "\<exists>a' m'. E j = Inr (a', m') \<and> a' \<le> accuracy \<and> (j < k \<longrightarrow> a' < accuracy)"
      proof cases
        case 1 with all lt show ?thesis by fastforce
      next
        case 2 with Ek show ?thesis by auto
      qed
    qed
    with r Ek show ?thesis by auto
  qed
qed

text \<open>
  The loop returns when every configuration evaluates, and otherwise stops with the
  exception of the first one that does not.
\<close>

lemma prefix_returns:
  assumes E: "\<And>j w. fst (fit_and_score L X y Xv yv hyper j w) = E j"
  shows "(\<forall>j<k. \<exists>am. E j = Inr am) \<Longrightarrow> \<exists>r w'. for_loop L X y Xv yv hyper [0..<k] None w = (Inr r, w')"
proof (induction k)
  case 0
  then show ?case by simp
next
  case (Suc k)
  then obtain b w1 where p: "for_loop L X y Xv yv hyper [0..<k] None w = (Inr b, w1)"
    by auto
  from Suc.prems obtain am where "E k = Inr am" by auto
  with E[of k w1] obtain w2 where "fit_and_score L X y Xv yv hyper k w1 = (Inr am, w2)"
    by (cases "fit_and_score L X y Xv yv hyper k w1") auto
  with p show ?case
    by (cases am) (simp add: for_loop_append split: prod.splits)
qed

lemma upt_split_at:
  "k < n \<Longrightarrow> [0..<n] = [0..<k] @ (k # [Suc k..<n])"
  by (metis less_imp_le_nat upt_add_eq_append upt_conv_Cons le0 le_add_diff_inverse plus_nat.add_0)

lemma for_loop_first_error_world:
  assumes E: "\<And>j w. fst (fit_and_score L X y Xv yv hyper j w) = E j"
    and k: "k < n" and e: "E k = Inl e" and ok: "\<forall>j<k. \<exists>am. E j = Inr am"
  shows "\<exists>w' m. for_loop L X y Xv yv hyper [0..<n] None w = (Inl e, w') \<and>
           calls w' = calls w @ concat (map calls_of [0..<k]) @ take m (calls_of k)"
proof -
  from prefix_returns[OF E ok] obtain b w1 where
    p: "for_loop L X y Xv yv hyper [0..<k] None w = (Inr b, w1)" by blast
  have c1: "calls w1 = calls w @ concat (map calls_of [0..<k])"
    using for_loop_calls_ok[OF p] .
  obtain w2 where f: "fit_and_score L X y Xv yv hyper k w1 = (Inl e, w2)"
    using E[of k w1] e by (cases "fit_and_score L X y Xv yv hyper k w1") auto
  from fas_calls_err[OF f] obtain m where "w2 = w1\<lparr>calls := calls w1 @ take m (calls_of k)\<rparr>" ..
  with c1 have c2: "calls w2 = calls w @ concat (map calls_of [0..<k]) @ take m (calls_of k)"
    by simp
  have "for_loop L X y Xv yv hyper [0..<n] None w = (Inl e, w2)"
    unfolding upt_split_at[OF k] for_loop_append p using f by simp
  with c2 show ?thesis by blast
qed

subsection \<open>Results of trainModels\<close>

lemma trainModels_value:
  assumes "fst (trainModels L hyper w) = Inr r"
  shows "(hyper = [] \<and> r = None) \<or>
     (\<exists>i a m. r = Some (i, a, m) \<and> i < length hyper \<and> evaluated L w hyper i = Inr (a, m) \<and>
        (\<forall>j<length hyper. \<exists>a' m'. evaluated L w hyper j = Inr (a', m') \<and> a' \<le> a \<and> (j < i \<longrightarrow> a' < a)))"
proof -
  let ?X = "drop_class (trainingDF w)" and ?y = "class_column (trainingDF w)"
  let ?Xv = "drop_class (validationDF w)" and ?yv = "class_column (validationDF w)"
  obtain w' where "for_loop L ?X ?y ?Xv ?yv hyper [0..<length hyper] None w = (Inr r, w')"
    using assms by (cases "for_loop L ?X ?y ?Xv ?yv hyper [0..<length hyper] None w")
      (simp add: trainModels_def)
  from prefix_value[where E = "evaluated L w hyper", OF E_evaluated this]
  show ?thesis by simp
qed

lemma trainModels_returns:
  assumes "\<forall>j<length hyper. \<exists>am. evaluated L w hyper j = Inr am"
  shows "\<exists>r. fst (trainModels L hyper w) = Inr r"
  using prefix_returns[where E = "evaluated L w hyper", OF E_evaluated assms, of w]
  by (auto simp: trainModels_def)


section \<open>The claims\<close>

subsection \<open>C1: the returned accuracy is the greatest\<close>

text \<open>
  Claim C1, as amended. For every non-empty grid in which every configuration is
  evaluated successfully, \<^verbatim>\<open>trainModels\<close> returns a candidate, the index,
  accuracy and fitted model of a configuration of the grid, and the returned accuracy is
  greater than or equal to the validation accuracy of every configuration of the grid.
  (One successful configuration is not enough: a configuration that fails ends the
  search with its exception, and no accuracy is returned.)
\<close>

theorem trainModels_returns_maximum:
  assumes "hyper \<noteq> []"
    and "\<forall>j<length hyper. \<exists>am. evaluated L w hyper j = Inr am"
  shows "\<exists>i a m. fst (trainModels L hyper w) = Inr (Some (i, a, m)) \<and> i < length hyper \<and>
           evaluated L w hyper i = Inr (a, m) \<and>
           (\<forall>j<length hyper. \<exists>a' m'. evaluated L w hyper j = Inr (a', m') \<and> a' \<le> a)"
proof -
  from trainModels_returns[OF assms(2)] obtain r where r: "fst (trainModels L hyper w) = Inr r" ..
  from trainModels_value[OF r] assms(1) obtain i a m where
    r0: "r = Some (i, a, m)" "i < length hyper" "evaluated L w hyper i = Inr (a, m)"
    and all: "\<forall>j<length hyper. \<exists>a' m'. evaluated L w hyper j = Inr (a', m') \<and> a' \<le> a \<and> (j < i \<longrightarrow> a' < a)"
    by blast
  from all have "\<forall>j<length hyper. \<exists>a' m'. evaluated L w hyper j = Inr (a', m') \<and> a' \<le> a"
    by blast
  with r r0 show ?thesis by blast
qed

text \<open>
  The theorem at the grid \<^verbatim>\<open>[{"C": 0.1}, {"C": 1.0}]\<close> with accuracies 0.80 and
  0.92.
\<close>

theorem trainModels_returns_maximum_witness:
  "[[(''C'', 0.1)], [(''C'', 1.0)]] \<noteq> [] \<and>
   evaluated (table_lib demo_table) world0 [[(''C'', 0.1)], [(''C'', 1.0)]] 0
     = Inr (0.80, [(''C'', 0.1)]) \<and>
   evaluated (table_lib demo_table) world0 [[(''C'', 0.1)], [(''C'', 1.0)]] 1
     = Inr (0.92, [(''C'', 1.0)]) \<and>
   fst (trainModels (table_lib demo_table) [[(''C'', 0.1)], [(''C'', 1.0)]] world0)
     = Inr (Some (1, 0.92, [(''C'', 1.0)])) \<and>
   (0.80::real) \<le> 0.92"
proof -
  let ?g = "[[(''C'', 0.1::real)], [(''C'', 1.0)]]"
  let ?L = "table_lib demo_table"
  have h1: "?g \<noteq> []" by simp
  have e0: "evaluated ?L world0 ?g 0 = Inr (0.80, [(''C'', 0.1)])" by (simp add: run_simps)
  have e1: "evaluated ?L world0 ?g 1 = Inr (0.92, [(''C'', 1.0)])" by (simp add: run_simps)
  have h2: "\<forall>j<length ?g. \<exists>am. evaluated ?L world0 ?g j = Inr am"
  proof (intro allI impI)
    fix j assume "j < length ?g"
    then have "j = 0 \<or> j = 1" by auto
    with e0 e1 show "\<exists>am. evaluated ?L world0 ?g j = Inr am" by auto
  qed
  from trainModels_returns_maximum[OF h1 h2] obtain i a m where
    r: "fst (trainModels ?L ?g world0) = Inr (Some (i, a, m))" and i: "i < length ?g"
    and ev: "evaluated ?L world0 ?g i = Inr (a, m)"
    and mx: "\<forall>j<length ?g. \<exists>a' m'. evaluated ?L world0 ?g j = Inr (a', m') \<and> a' \<le> a"
    by blast
  from mx e1 have "0.92 \<le> a" by fastforce
  moreover from i have "i = 0 \<or> i = 1" by auto
  ultimately have "i = 1" using ev e0 by auto
  with ev e1 have "a = 0.92 \<and> m = [(''C'', 1.0)]" by simp
  with r \<open>i = 1\<close> h1 e0 e1 show ?thesis by simp
qed

text \<open>
  Claim C1 as the spec states it fails. In the grid
  \<^verbatim>\<open>[{"C": 0.1}, {"C": -1}]\<close> the first configuration is evaluated successfully,
  with accuracy 0.80; the fit of the second raises, and the search returns no accuracy
  at all: it ends with the exception.
\<close>

theorem mixed_grid_counterexample:
  "evaluated (table_lib demo_table) world0 [[(''C'', 0.1)], [(''C'', -1)]] 0
     = Inr (0.80, [(''C'', 0.1)]) \<and>
   fst (trainModels (table_lib demo_table) [[(''C'', 0.1)], [(''C'', -1)]] world0)
     = Inl (LibraryError ''ValueError'')"
  by (simp add: run_simps)

subsection \<open>C2: a configuration that fails\<close>

text \<open>
  Claim C2, as amended. The source has no \<^verbatim>\<open>try\<close> around the loop body, so
  a failing configuration is not skipped. If \<open>k\<close> is the first configuration whose
  construction, fit, prediction or scoring raises, \<^verbatim>\<open>trainModels\<close> raises that
  exception and returns no candidate; the configurations before \<open>k\<close> have been
  fitted and scored, and no library call is made for any configuration after \<open>k\<close>.
\<close>

theorem failing_configuration_aborts_search:
  assumes "k < length hyper" and "evaluated L w hyper k = Inl e"
    and "\<forall>j<k. \<exists>am. evaluated L w hyper j = Inr am"
  shows "fst (trainModels L hyper w) = Inl e \<and>
     (\<exists>n. calls (snd (trainModels L hyper w)) =
            calls w @ concat (map calls_of [0..<k]) @ take n (calls_of k))"
  using for_loop_first_error_world[where E = "evaluated L w hyper", OF E_evaluated assms, of w]
  by (auto simp: trainModels_def)

text \<open>
  The theorem at a grid of three configurations whose second has a negative
  \<^verbatim>\<open>C\<close>.
\<close>

theorem failing_configuration_aborts_search_witness:
  "(1::nat) < length [[(''C'', 0.1::real)], [(''C'', -1)], [(''C'', 1.0)]] \<and>
   evaluated (table_lib demo_table) world0 [[(''C'', 0.1)], [(''C'', -1)], [(''C'', 1.0)]] 1
     = Inl (LibraryError ''ValueError'') \<and>
   evaluated (table_lib demo_table) world0 [[(''C'', 0.1)], [(''C'', -1)], [(''C'', 1.0)]] 0
     = Inr (0.80, [(''C'', 0.1)]) \<and>
   fst (trainModels (table_lib demo_table) [[(''C'', 0.1)], [(''C'', -1)], [(''C'', 1.0)]] world0)
     = Inl (LibraryError ''ValueError'') \<and>
   calls (snd (trainModels (table_lib demo_table) [[(''C'', 0.1)], [(''C'', -1)], [(''C'', 1.0)]] world0))
     = [Call_SVC 0, Call_fit 0, Call_predict 0, Call_accuracy_score 0, Call_SVC 1, Call_fit 1]"
proof -
  let ?g = "[[(''C'', 0.1::real)], [(''C'', -1)], [(''C'', 1.0)]]"
  have h1: "(1::nat) < length ?g" by simp
  have h2: "evaluated (table_lib demo_table) world0 ?g 1 = Inl (LibraryError ''ValueError'')"
    by (simp add: run_simps)
  have h0: "evaluated (table_lib demo_table) world0 ?g 0 = Inr (0.80, [(''C'', 0.1)])"
    by (simp add: run_simps)
  have h3: "\<forall>j<1. \<exists>am. evaluated (table_lib demo_table) world0 ?g j = Inr am"
  proof (intro allI impI)
    fix j :: nat
    assume "j < 1"
    then have "j = 0" by simp
    with h0 show "\<exists>am. evaluated (table_lib demo_table) world0 ?g j = Inr am" by blast
  qed
  have c: "calls (snd (trainModels (table_lib demo_table) ?g world0))
     = [Call_SVC 0, Call_fit 0, Call_predict 0, Call_accuracy_score 0, Call_SVC 1, Call_fit 1]"
    by (simp add: run_simps)
  from failing_configuration_aborts_search[OF h1 h2 h3] h1 h2 h0 c show ?thesis by simp
qed

text \<open>
  Claim C2 as the spec states it fails. On the grid
  \<^verbatim>\<open>[{"C": -1}, {"C": 1.0}]\<close> the first fit raises; the search does not continue
  with the valid second configuration, which by the claim it would return, but ends
  with the exception, after the two calls for the first configuration.
\<close>

theorem failing_configuration_counterexample:
  "fst (trainModels (table_lib demo_table) [[(''C'', -1)], [(''C'', 1.0)]] world0)
     = Inl (LibraryError ''ValueError'') \<and>
   calls (snd (trainModels (table_lib demo_table) [[(''C'', -1)], [(''C'', 1.0)]] world0))
     = [Call_SVC 0, Call_fit 0]"
  by (simp add: run_simps)

subsection \<open>C3: the empty grid\<close>

text \<open>
  Claim C3, as amended. The source has no check for an empty grid: the loop body never
  runs and the function returns the initial \<^verbatim>\<open>bestModel\<close>, which is
  \<^verbatim>\<open>None\<close>. No exception is raised, no library call is made and nothing is
  printed.
\<close>

theorem trainModels_empty_grid_returns_None:
  "trainModels L [] w = (Inr None, w)"
  by (simp add: trainModels_def)

text \<open>
  Claim C3 as the spec states it fails: on the empty grid the run is a normal return of
  \<^verbatim>\<open>None\<close>, not an exception.
\<close>

theorem trainModels_empty_grid_counterexample:
  "fst (trainModels (table_lib (\<lambda>params::(string \<times> real) list. Inr 1)) [] world0) = Inr None"
  by (simp add: trainModels_def)

subsection \<open>C4: ties\<close>



subsection \<open>C5: the Best-So-Far slot\<close>

text \<open>
  Claim C5. The slot is empty before the first iteration. From the slot \<open>b\<close> after
  \<open>k\<close> iterations to the slot \<open>b'\<close> after \<open>k + 1\<close>, either nothing changes, or
  the slot is replaced by configuration \<open>k\<close>, and then \<open>b\<close> was empty or held a
  strictly smaller accuracy; the stored accuracy never decreases. The function returns
  the slot reached after the last iteration.
\<close>

theorem best_so_far_slot:
  assumes "slot_after L w hyper k = Inr b" and "slot_after L w hyper (Suc k) = Inr b'"
  shows "slot_after L w hyper 0 = Inr None \<and>
     fst (trainModels L hyper w) = slot_after L w hyper (length hyper) \<and>
     (b' = b \<or>
      (\<exists>accuracy svm. evaluated L w hyper k = Inr (accuracy, svm) \<and> b' = Some (k, accuracy, svm) \<and>
          (b = None \<or> (\<exists>i a m. b = Some (i, a, m) \<and> a < accuracy)))) \<and>
     (\<forall>i a m. b = Some (i, a, m) \<longrightarrow> (\<exists>i' a' m'. b' = Some (i', a', m') \<and> a \<le> a'))"
proof -
  let ?X = "drop_class (trainingDF w)" and ?y = "class_column (trainingDF w)"
  let ?Xv = "drop_class (validationDF w)" and ?yv = "class_column (validationDF w)"
  from assms(2) obtain w' where s: "for_loop L ?X ?y ?Xv ?yv hyper [0..<Suc k] None w = (Inr b', w')"
    unfolding slot_after_def by (cases "for_loop L ?X ?y ?Xv ?yv hyper [0..<Suc k] None w") simp
  from s obtain b0 w1 accuracy svm where
    p: "for_loop L ?X ?y ?Xv ?yv hyper [0..<k] None w = (Inr b0, w1)" and
    f: "fit_and_score L ?X ?y ?Xv ?yv hyper k w1 = (Inr (accuracy, svm), w1\<lparr>calls := calls w1 @ calls_of k\<rparr>)" and
    u: "update_best k accuracy svm b0 (w1\<lparr>calls := calls w1 @ calls_of k\<rparr>) = (b', w')"
    by (rule prefix_Suc_Inr)
  from p assms(1) have b0: "b0 = b" by (simp add: slot_after_def)
  have Ek: "evaluated L w hyper k = Inr (accuracy, svm)"
    using E_evaluated[of L w hyper k w1] f by simp
  have "slot_after L w hyper 0 = Inr None" by (simp add: slot_after_def)
  moreover have "fst (trainModels L hyper w) = slot_after L w hyper (length hyper)"
    by (simp add: slot_after_def trainModels_def)
  moreover from upd_cases[OF u] b0 Ek have
    "b' = b \<or> (\<exists>accuracy svm. evaluated L w hyper k = Inr (accuracy, svm) \<and> b' = Some (k, accuracy, svm) \<and>
          (b = None \<or> (\<exists>i a m. b = Some (i, a, m) \<and> a < accuracy)))"
    by blast
  moreover from upd_cases[OF u] b0 have
    "\<forall>i a m. b = Some (i, a, m) \<longrightarrow> (\<exists>i' a' m'. b' = Some (i', a', m') \<and> a \<le> a')"
    by auto
  ultimately show ?thesis by blast
qed

text \<open>
  The theorem at the second iteration over the grid of accuracies 0.80 and 0.92.
\<close>

theorem best_so_far_slot_witness:
  "slot_after (table_lib demo_table) world0 [[(''C'', 0.1)], [(''C'', 1.0)]] 1
     = Inr (Some (0, 0.80, [(''C'', 0.1)])) \<and>
   slot_after (table_lib demo_table) world0 [[(''C'', 0.1)], [(''C'', 1.0)]] (Suc 1)
     = Inr (Some (1, 0.92, [(''C'', 1.0)])) \<and>
   slot_after (table_lib demo_table) world0 [[(''C'', 0.1::real)], [(''C'', 1.0)]] 0 = Inr None \<and>
   evaluated (table_lib demo_table) world0 [[(''C'', 0.1)], [(''C'', 1.0)]] 1
     = Inr (0.92, [(''C'', 1.0)]) \<and>
   (0.80::real) < 0.92"
proof -
  let ?g = "[[(''C'', 0.1::real)], [(''C'', 1.0)]]"
  let ?L = "table_lib demo_table"
  have h1: "slot_after ?L world0 ?g 1 = Inr (Some (0, 0.80, [(''C'', 0.1)]))"
    by (simp add: run_simps)
  have h2: "slot_after ?L world0 ?g (Suc 1) = Inr (Some (1, 0.92, [(''C'', 1.0)]))"
    by (simp add: run_simps)
  have e1: "evaluated ?L world0 ?g 1 = Inr (0.92, [(''C'', 1.0)])" by (simp add: run_simps)
  from best_so_far_slot[OF h1 h2] h1 h2 e1 show ?thesis by simp
qed

subsection \<open>C6: mismatched data\<close>

text \<open>
  Claim C6, as amended. \<^verbatim>\<open>trainModels\<close> checks no shape itself; a mismatch
  can only surface as the exception of a library call inside the loop. On a non-empty
  grid, when the first configuration is constructed and fitted and \<^verbatim>\<open>predict\<close>
  rejects the validation features, that exception reaches the caller unrecovered: the
  search ends after these three calls, with nothing scored, printed or returned. (On an
  empty grid nothing is called and nothing is raised.)
\<close>

theorem shape_error_comes_from_library:
  assumes "hyper \<noteq> []"
    and "SVC L (hd hyper) = Inr svm0"
    and "fit L svm0 (drop_class (trainingDF w)) (class_column (trainingDF w)) = Inr svm"
    and "predict L svm (drop_class (validationDF w)) = Inl e"
  shows "trainModels L hyper w =
           (Inl e, w\<lparr>calls := calls w @ [Call_SVC 0, Call_fit 0, Call_predict 0]\<rparr>)"
proof -
  from assms(1) obtain c rest where h: "hyper = c # rest" by (cases hyper) auto
  have u: "[0..<length hyper] = 0 # [Suc 0..<length hyper]"
    by (rule upt_conv_Cons) (simp add: h)
  show ?thesis
    using assms(2-4) unfolding trainModels_def Let_def u
    by (simp add: h fit_and_score_def getitem_def log_call_def)
qed

text \<open>
  The theorem for the shape-checking stand-in on frames of two and of three
  features.
\<close>

theorem shape_error_comes_from_library_witness:
  "[[(''C'', 1.0::real)]] \<noteq> [] \<and>
   SVC width_lib (hd [[(''C'', 1.0::real)]]) = Inr ([(''C'', 1.0)], 0) \<and>
   fit width_lib ([(''C'', 1.0::real)], 0) (drop_class (trainingDF world_mismatched))
       (class_column (trainingDF world_mismatched)) = Inr ([(''C'', 1.0)], 2) \<and>
   predict width_lib ([(''C'', 1.0::real)], 2) (drop_class (validationDF world_mismatched))
     = Inl (LibraryError ''ValueError'') \<and>
   trainModels width_lib [[(''C'', 1.0::real)]] world_mismatched =
     (Inl (LibraryError ''ValueError''),
      world_mismatched\<lparr>calls := [Call_SVC 0, Call_fit 0, Call_predict 0]\<rparr>)"
proof -
  let ?c = "[(''C'', 1.0::real)]"
  have h1: "[?c] \<noteq> []" by simp
  have h2: "SVC width_lib (hd [?c]) = Inr (?c, 0)" by (simp add: width_lib_def)
  have h3: "fit width_lib (?c, 0) (drop_class (trainingDF world_mismatched))
       (class_column (trainingDF world_mismatched)) = Inr (?c, 2)"
    by (simp add: run_simps)
  have h4: "predict width_lib (?c, 2) (drop_class (validationDF world_mismatched))
     = Inl (LibraryError ''ValueError'')"
    by (simp add: run_simps)
  have c: "calls world_mismatched = []" by (simp add: world_mismatched_def)
  from shape_error_comes_from_library[OF h1 h2 h3 h4] h1 h2 h3 h4 c show ?thesis by simp
qed

text \<open>
  Claim C6 as the spec states it fails: with frames that disagree in length and in
  width, and a library that would reject them, the search over the empty grid returns
  \<^verbatim>\<open>None\<close> and raises nothing.
\<close>

theorem no_shape_check_counterexample:
  "trainModels width_lib ([] :: (string \<times> real) list list) world_mismatched
     = (Inr None, world_mismatched)"
  by (simp add: trainModels_def)

subsection \<open>C7: the outcomes of a search\<close>



subsection \<open>C8: effects\<close>

text \<open>
  Claim C8, as amended. The two data frames are the same after
  \<^verbatim>\<open>trainModels\<close> as before, for every grid and whether it returns or raises.
  The function does have an effect beyond its result: it appends lines to the standard
  output, each reporting the index and accuracy of a configuration of the grid that was
  evaluated.
\<close>

theorem trainModels_effects:
  "trainingDF (snd (trainModels L hyper w)) = trainingDF w \<and>
   validationDF (snd (trainModels L hyper w)) = validationDF w \<and>
   (\<exists>ls. stdout (snd (trainModels L hyper w)) = stdout w @ ls \<and>
      (\<forall>l\<in>set ls. \<exists>i<length hyper. \<exists>a m. l = Best_model_line i a \<and>
          evaluated L w hyper i = Inr (a, m)))"
proof -
  let ?run = "for_loop L (drop_class (trainingDF w)) (class_column (trainingDF w))
            (drop_class (validationDF w)) (class_column (validationDF w)) hyper [0..<length hyper] None w"
  have run: "?run = (fst ?run, snd ?run)" by simp
  from for_loop_frame[OF run] have fr: "trainingDF (snd ?run) = trainingDF w \<and> validationDF (snd ?run) = validationDF w" .
  from for_loop_stdout[where E = "evaluated L w hyper", OF E_evaluated run]
  obtain ls where ls: "stdout (snd ?run) = stdout w @ ls"
    "\<forall>l\<in>set ls. \<exists>i\<in>set [0..<length hyper]. \<exists>a m. l = Best_model_line i a \<and> evaluated L w hyper i = Inr (a, m)"
    by blast
  from ls(2) have "\<forall>l\<in>set ls. \<exists>i<length hyper. \<exists>a m. l = Best_model_line i a \<and> evaluated L w hyper i = Inr (a, m)"
    by fastforce
  with fr ls(1) show ?thesis unfolding trainModels_def Let_def by blast
qed

text \<open>
  The theorem at the grid of accuracies 0.80 and 0.92, which prints two lines.
\<close>

theorem trainModels_effects_witness:
  "trainingDF (snd (trainModels (table_lib demo_table) [[(''C'', 0.1)], [(''C'', 1.0)]] world0))
     = trainingDF world0 \<and>
   validationDF (snd (trainModels (table_lib demo_table) [[(''C'', 0.1)], [(''C'', 1.0)]] world0))
     = validationDF world0 \<and>
   stdout (snd (trainModels (table_lib demo_table) [[(''C'', 0.1)], [(''C'', 1.0)]] world0))
     = stdout world0 @ [Best_model_line 0 0.80, Best_model_line 1 0.92]"
proof -
  let ?g = "[[(''C'', 0.1::real)], [(''C'', 1.0)]]"
  have s: "stdout (snd (trainModels (table_lib demo_table) ?g world0))
     = stdout world0 @ [Best_model_line 0 0.80, Best_model_line 1 0.92]"
    by (simp add: run_simps)
  from trainModels_effects[of "table_lib demo_table" ?g world0] s show ?thesis by simp
qed

text \<open>
  Claim C8 as the spec states it fails: a search over a single configuration leaves a
  line on the standard output.
\<close>

theorem prints_counterexample:
  "stdout (snd (trainModels (table_lib demo_table) [[(''C'', 1.0)]] world0)) =
     [Best_model_line 0 0.92] \<and>
   stdout (snd (trainModels (table_lib demo_table) [[(''C'', 1.0)]] world0)) \<noteq> stdout world0"
  by (simp add: run_simps)

subsection \<open>C9: the example of the spec\<close>

text \<open>
  Claim C9. For the grid \<^verbatim>\<open>[{"C": 0.1}, {"C": 1.0}]\<close>, when the two
  configurations evaluate to the accuracies 0.80 and 0.92, \<^verbatim>\<open>trainModels\<close>
  returns index 1 with accuracy 0.92 and the model fitted for \<^verbatim>\<open>{"C": 1.0}\<close>.
\<close>

theorem example_grid_selects_second:
  assumes "evaluated L w [[(''C'', 0.1)], [(''C'', 1.0)]] 0 = Inr (0.80, m0)"
    and "evaluated L w [[(''C'', 0.1)], [(''C'', 1.0)]] 1 = Inr (0.92, m1)"
  shows "fst (trainModels L [[(''C'', 0.1::real)], [(''C'', 1.0)]] w) = Inr (Some (1, 0.92, m1))"
proof -
  let ?g = "[[(''C'', 0.1::real)], [(''C'', 1.0)]]"
  have all: "\<forall>j<length ?g. \<exists>am. evaluated L w ?g j = Inr am"
  proof (intro allI impI)
    fix j assume "j < length ?g"
    then have "j = 0 \<or> j = 1" by auto
    with assms show "\<exists>am. evaluated L w ?g j = Inr am" by auto
  qed
  from trainModels_returns[OF all] obtain r where r: "fst (trainModels L ?g w) = Inr r" ..
  from trainModels_value[OF r] obtain i a m where
    r0: "r = Some (i, a, m)" "i < length ?g" "evaluated L w ?g i = Inr (a, m)"
    and mx: "\<forall>j<length ?g. \<exists>a' m'. evaluated L w ?g j = Inr (a', m') \<and> a' \<le> a \<and> (j < i \<longrightarrow> a' < a)"
    by auto
  from mx assms(2) have "0.92 \<le> a" by fastforce
  moreover from r0(2) have "i = 0 \<or> i = 1" by auto
  ultimately have "i = 1" using r0(3) assms(1) by auto
  with r0 assms(2) r show ?thesis by simp
qed

text \<open>
  The theorem for the table stand-in, which gives these two accuracies.
\<close>

theorem example_grid_selects_second_witness:
  "evaluated (table_lib demo_table) world0 [[(''C'', 0.1)], [(''C'', 1.0)]] 0
     = Inr (0.80, [(''C'', 0.1)]) \<and>
   evaluated (table_lib demo_table) world0 [[(''C'', 0.1)], [(''C'', 1.0)]] 1
     = Inr (0.92, [(''C'', 1.0)]) \<and>
   fst (trainModels (table_lib demo_table) [[(''C'', 0.1)], [(''C'', 1.0)]] world0)
     = Inr (Some (1, 0.92, [(''C'', 1.0)]))"
proof -
  let ?g = "[[(''C'', 0.1::real)], [(''C'', 1.0)]]"
  let ?L = "table_lib demo_table"
  have e0: "evaluated ?L world0 ?g 0 = Inr (0.80, [(''C'', 0.1)])" by (simp add: run_simps)
  have e1: "evaluated ?L world0 ?g 1 = Inr (0.92, [(''C'', 1.0)])" by (simp add: run_simps)
  from example_grid_selects_second[OF e0 e1] e0 e1 show ?thesis by simp
qed

subsection \<open>C10: every configuration, once, in order\<close>

text \<open>
  Claim C10, as amended. For every grid on which no library call raises (each
  configuration \<open>j\<close> is constructed to \<open>svm0 j\<close>, fitted to \<open>svm j\<close>,
  predicts \<open>pred j\<close> and scores \<open>accuracy j\<close>), \<^verbatim>\<open>trainModels\<close>
  constructs, fits, predicts and scores every configuration exactly once, in the index
  order 0, 1, ..., \<^verbatim>\<open>len(hyper) - 1\<close>, and returns; there is no early exit
  after the greatest accuracy was seen, since the returned candidate is the fitted model
  \<open>svm i\<close> of an index whose score \<open>accuracy i\<close> is at least the score of every
  configuration of the grid, the later ones included. (An exception of a library call
  is the one early exit: it ends the loop at once.)
\<close>

theorem every_configuration_once_in_order:
  assumes "\<forall>j<length hyper.
      SVC L (hyper ! j) = Inr (svm0 j) \<and>
      fit L (svm0 j) (drop_class (trainingDF w)) (class_column (trainingDF w)) = Inr (svm j) \<and>
      predict L (svm j) (drop_class (validationDF w)) = Inr (pred j) \<and>
      accuracy_score L (class_column (validationDF w)) (pred j) = Inr (accuracy j)"
  shows "calls (snd (trainModels L hyper w)) = calls w @ concat (map calls_of [0..<length hyper]) \<and>
     ((hyper = [] \<and> fst (trainModels L hyper w) = Inr None) \<or>
      (\<exists>i<length hyper. fst (trainModels L hyper w) = Inr (Some (i, accuracy i, svm i)) \<and>
          (\<forall>j<length hyper. accuracy j \<le> accuracy i)))"
proof -
  have ev: "\<forall>j<length hyper. evaluated L w hyper j = Inr (accuracy j, svm j)"
    using assms by (simp add: evaluated_def fit_and_score_def getitem_def Let_def)
  then have "\<forall>j<length hyper. \<exists>am. evaluated L w hyper j = Inr am" by blast
  from trainModels_returns[OF this] obtain r where r: "fst (trainModels L hyper w) = Inr r" ..
  let ?run = "for_loop L (drop_class (trainingDF w)) (class_column (trainingDF w))
            (drop_class (validationDF w)) (class_column (validationDF w)) hyper [0..<length hyper] None w"
  from r have "?run = (Inr r, snd ?run)"
    by (simp add: trainModels_def prod_eq_iff)
  from for_loop_calls_ok[OF this]
  have c: "calls (snd (trainModels L hyper w)) = calls w @ concat (map calls_of [0..<length hyper])"
    by (simp add: trainModels_def)
  from trainModels_value[OF r] have
    "(hyper = [] \<and> fst (trainModels L hyper w) = Inr None) \<or>
      (\<exists>i<length hyper. fst (trainModels L hyper w) = Inr (Some (i, accuracy i, svm i)) \<and>
          (\<forall>j<length hyper. accuracy j \<le> accuracy i))"
  proof
    assume "hyper = [] \<and> r = None"
    with r show ?thesis by simp
  next
    assume "\<exists>i a m. r = Some (i, a, m) \<and> i < length hyper \<and> evaluated L w hyper i = Inr (a, m) \<and>
        (\<forall>j<length hyper. \<exists>a' m'. evaluated L w hyper j = Inr (a', m') \<and> a' \<le> a \<and> (j < i \<longrightarrow> a' < a))"
    then obtain i a m where r0: "r = Some (i, a, m)" "i < length hyper" "evaluated L w hyper i = Inr (a, m)"
      and all: "\<forall>j<length hyper. \<exists>a' m'. evaluated L w hyper j = Inr (a', m') \<and> a' \<le> a"
      by blast
    from r0(2,3) ev have am: "a = accuracy i" "m = svm i" by auto
    have "\<forall>j<length hyper. accuracy j \<le> accuracy i"
    proof (intro allI impI)
      fix j assume j: "j < length hyper"
      with all obtain a' m' where "evaluated L w hyper j = Inr (a', m')" "a' \<le> a" by blast
      with ev j am show "accuracy j \<le> accuracy i" by auto
    qed
    with r r0 am show ?thesis by blast
  qed
  with c show ?thesis by blast
qed

text \<open>
  The theorem for the shape-checking stand-in over three configurations, which all
  score 1/2: the first one is returned as fitted on two features, and the two later
  ones are still fitted and scored.
\<close>

theorem every_configuration_once_in_order_witness:
  "SVC width_lib [(''C'', 1.0::real)] = Inr ([(''C'', 1.0)], 0) \<and>
   fit width_lib ([(''C'', 1.0::real)], 0) (drop_class (trainingDF world1))
       (class_column (trainingDF world1)) = Inr ([(''C'', 1.0)], 2) \<and>
   predict width_lib ([(''C'', 1.0::real)], 2) (drop_class (validationDF world1)) = Inr [1, 1] \<and>
   accuracy_score (width_lib :: ((string \<times> real) list, (string \<times> real) list \<times> nat) sklearn)
       (class_column (validationDF world1)) [1, 1] = Inr (1 / 2) \<and>
   fst (trainModels width_lib [[(''C'', 1.0::real)], [(''C'', 0.1)], [(''C'', 0.5)]] world1)
     = Inr (Some (0, 1 / 2, ([(''C'', 1.0)], 2))) \<and>
   calls (snd (trainModels width_lib [[(''C'', 1.0::real)], [(''C'', 0.1)], [(''C'', 0.5)]] world1))
     = [Call_SVC 0, Call_fit 0, Call_predict 0, Call_accuracy_score 0,
        Call_SVC 1, Call_fit 1, Call_predict 1, Call_accuracy_score 1,
        Call_SVC 2, Call_fit 2, Call_predict 2, Call_accuracy_score 2]"
proof -
  let ?g = "[[(''C'', 1.0::real)], [(''C'', 0.1)], [(''C'', 0.5)]]"
  let ?L = "width_lib :: ((string \<times> real) list, (string \<times> real) list \<times> nat) sklearn"
  have a1: "SVC ?L [(''C'', 1.0::real)] = Inr ([(''C'', 1.0)], 0)"
    by (simp add: width_lib_def)
  have a2: "fit ?L ([(''C'', 1.0::real)], 0) (drop_class (trainingDF world1))
       (class_column (trainingDF world1)) = Inr ([(''C'', 1.0)], 2)"
    by (simp add: width_lib_def world1_def drop_class_def class_column_def)
  have a3: "predict ?L ([(''C'', 1.0::real)], 2) (drop_class (validationDF world1)) = Inr [1, 1]"
    by (simp add: width_lib_def world1_def drop_class_def)
  have a4: "accuracy_score ?L (class_column (validationDF world1)) [1, 1] = Inr (1 / 2)"
    by (simp add: width_lib_def world1_def class_column_def)
  have h: "\<forall>j<length ?g.
      SVC ?L (?g ! j) = Inr ((\<lambda>j. (?g ! j, 0)) j) \<and>
      fit ?L ((\<lambda>j. (?g ! j, 0)) j) (drop_class (trainingDF world1)) (class_column (trainingDF world1))
        = Inr ((\<lambda>j. (?g ! j, 2)) j) \<and>
      predict ?L ((\<lambda>j. (?g ! j, 2)) j) (drop_class (validationDF world1)) = Inr ((\<lambda>j. [1, 1]) j) \<and>
      accuracy_score ?L (class_column (validationDF world1)) ((\<lambda>j. [1, 1]) j) = Inr ((\<lambda>j. 1 / 2) j)"
    by (simp add: width_lib_def world1_def drop_class_def class_column_def)
  have c: "calls world1 = []" by (simp add: world1_def)
  have u: "[0..<length ?g] = [0, 1, 2]" by (simp add: upt_rec)
  from every_configuration_once_in_order[OF h] obtain i where
    cs: "calls (snd (trainModels ?L ?g world1)) = calls world1 @ concat (map calls_of [0..<length ?g])"
    and r: "fst (trainModels ?L ?g world1) = Inr (Some (i, 1 / 2, (?g ! i, 2)))"
    by auto
  have r0: "fst (trainModels ?L ?g world1) = Inr (Some (0, 1 / 2, ([(''C'', 1.0)], 2)))"
    by (simp add: run_simps world1_def)
  from cs c u a1 a2 a3 a4 r0 show ?thesis
    by (simp add: calls_of_def)
qed

text \<open>
  Claim C10 as stated fails. In the grid
  \<^verbatim>\<open>[{"C": 1.0}, {"C": -1}, {"C": 0.5}]\<close> the fit of the second configuration
  raises: the loop ends there with the exception, and the third configuration is never
  constructed, fitted or scored.
\<close>

theorem exception_ends_loop_counterexample:
  "fst (trainModels (table_lib demo_table) [[(''C'', 1.0)], [(''C'', -1)], [(''C'', 0.5)]] world0)
     = Inl (LibraryError ''ValueError'') \<and>
   calls (snd (trainModels (table_lib demo_table) [[(''C'', 1.0)], [(''C'', -1)], [(''C'', 0.5)]] world0))
     = [Call_SVC 0, Call_fit 0, Call_predict 0, Call_accuracy_score 0, Call_SVC 1, Call_fit 1]"
  by (simp add: run_simps)

end
